theory Spec2Isabelle
  imports Complex_Main
begin

section \<open>The ML pipeline service: model serving, jobs and monitoring\<close>

text \<open>
  A shallow embedding of \<^verbatim>\<open>services/ml-pipeline/src/ml_service.py\<close> (class
  \<^verbatim>\<open>MLService\<close>) and of \<^verbatim>\<open>services/ml-pipeline/src/monitoring.py\<close> (class
  \<^verbatim>\<open>PerformanceMonitor\<close>).

  Conventions of the embedding.
  \<^item> A Python \<^verbatim>\<open>float\<close> is read as the real number it denotes, and the decimal
    literals of the source (\<^verbatim>\<open>0.3\<close>, \<^verbatim>\<open>0.9\<close>, ...) as the same decimal
    numbers; the functions below only compare such values and multiply by one constant.
  \<^item> A \<^verbatim>\<open>dict\<close> that the source iterates over is an association list in insertion
    order; \<^verbatim>\<open>d.get(k)\<close> is \<^term>\<open>map_of d k\<close>.
  \<^item> A database table is the list of its rows; an \<^verbatim>\<open>UPDATE ... WHERE\<close> maps over
    the rows.
  \<^item> What the source draws from its environment (\<^verbatim>\<open>uuid.uuid4()\<close>,
    \<^verbatim>\<open>datetime.utcnow()\<close>, \<^verbatim>\<open>random.uniform\<close>, the files under the model storage
    path) is a parameter of the function that uses it. Logging is not modelled, and the
    database and the Celery broker are taken to be reachable.
  \<^item> A private method keeps its name without the leading underscore
    (\<^verbatim>\<open>_get_model\<close> is \<open>get_model\<close>).
\<close>

subsection \<open>monitoring.py: PerformanceMonitor\<close>

text \<open>\<^verbatim>\<open>self.performance_thresholds\<close> and \<^verbatim>\<open>self.drift_thresholds\<close>, as set in
  \<^verbatim>\<open>__init__\<close>.\<close>

definition performance_thresholds :: "(string \<times> real) list" where
  "performance_thresholds =
     [(''accuracy'', 0.8), (''precision'', 0.75), (''recall'', 0.75), (''f1_score'', 0.75)]"

definition drift_thresholds :: "(string \<times> real) list" where
  "drift_thresholds = [(''feature_drift'', 0.1), (''concept_drift'', 0.15)]"

record alert =
  alert_type :: string
  alert_metric :: string
  current_value :: real
  alert_threshold :: real
  severity :: string

record performance_report =
  report_status :: string
  alerts :: "alert list"
  checked_at :: nat

text \<open>The body of the \<^verbatim>\<open>for metric, value in current_metrics.items()\<close> loop. The test
  \<^verbatim>\<open>if threshold and value < threshold\<close> is false for a missing threshold (\<^verbatim>\<open>None\<close>)
  and for a threshold \<^verbatim>\<open>0.0\<close>.\<close>

fun check_loop :: "(string \<times> real) list \<Rightarrow> alert list \<times> string \<Rightarrow> alert list \<times> string" where
  "check_loop [] acc = acc"
| "check_loop ((metric, v) # rest) (als, st) =
     (case map_of performance_thresholds metric of
        None \<Rightarrow> check_loop rest (als, st)
      | Some t \<Rightarrow>
          if t \<noteq> 0 \<and> v < t
          then check_loop rest
                 (als @ [\<lparr>alert_type = ''performance_degradation'', alert_metric = metric,
                          current_value = v, alert_threshold = t,
                          severity = (if v < t * 0.9 then ''high'' else ''medium'')\<rparr>],
                  ''degraded'')
          else check_loop rest (als, st))"

definition check_model_performance ::
  "string \<Rightarrow> (string \<times> real) list \<Rightarrow> nat \<Rightarrow> performance_report" where
  "check_model_performance model_type current_metrics now =
     (case check_loop current_metrics ([], ''healthy'') of
        (als, st) \<Rightarrow> \<lparr>report_status = st, alerts = als, checked_at = now\<rparr>)"

record drift_detail =
  drift_score :: real
  drift_threshold :: real

record drift_report =
  drift_detected :: bool
  drift_details :: "(string \<times> drift_detail) list"
  drift_checked_at :: nat

text \<open>\<^verbatim>\<open>drift_details[feature] = ...\<close> on a dict kept in insertion order: a new key is
  appended, an existing key keeps its place and takes the new value.\<close>

fun dict_set :: "('k \<times> 'v) list \<Rightarrow> 'k \<Rightarrow> 'v \<Rightarrow> ('k \<times> 'v) list" where
  "dict_set [] k v = [(k, v)]"
| "dict_set ((k', v') # d) k v = (if k' = k then (k, v) # d else (k', v') # dict_set d k v)"

text \<open>\<^verbatim>\<open>self.drift_thresholds["feature_drift"]\<close>: the key is in the table, so the
  subscript cannot raise.\<close>

definition feature_drift_threshold :: real where
  "feature_drift_threshold = (case map_of drift_thresholds ''feature_drift'' of Some t \<Rightarrow> t | None \<Rightarrow> 0)"

definition get_drift_score :: "(string \<times> real) list \<Rightarrow> real" where
  \<comment> \<open>\<^verbatim>\<open>stats.get("drift_score", 0.0)\<close>\<close>
  "get_drift_score stats = (case map_of stats ''drift_score'' of None \<Rightarrow> 0.0 | Some x \<Rightarrow> x)"

fun drift_loop ::
  "(string \<times> (string \<times> real) list) list \<Rightarrow> bool \<times> (string \<times> drift_detail) list
     \<Rightarrow> bool \<times> (string \<times> drift_detail) list" where
  "drift_loop [] acc = acc"
| "drift_loop ((feature, stats) # rest) (detected, details) =
     (let score = get_drift_score stats
      in if score > feature_drift_threshold
         then drift_loop rest
                (True, dict_set details feature
                         \<lparr>drift_score = score, drift_threshold = feature_drift_threshold\<rparr>)
         else drift_loop rest (detected, details))"

definition detect_data_drift ::
  "string \<Rightarrow> (string \<times> (string \<times> real) list) list \<Rightarrow> nat \<Rightarrow> drift_report" where
  "detect_data_drift model_type feature_statistics now =
     (case drift_loop feature_statistics (False, []) of
        (detected, details) \<Rightarrow>
          \<lparr>drift_detected = detected, drift_details = details, drift_checked_at = now\<rparr>)"

subsection \<open>ml_service.py: values, errors and tables\<close>

text \<open>The values of a feature dict (\<^verbatim>\<open>Dict[str, Any]\<close>, decoded from JSON): \<open>Num x\<close>
  is a number, on which \<^verbatim>\<open>float()\<close>, division and comparison work; \<open>NonNum\<close> is
  any value on which they raise (\<^verbatim>\<open>null\<close>, a list, an object, a string that is not a
  number). Strings that spell a number are left out of the model.\<close>

datatype pyval = Num real | NonNum

type_synonym features = "(string \<times> pyval) list"

text \<open>The exceptions raised inside the service, and \<^verbatim>\<open>MLServiceException(message,
  details=str(e))\<close> of \<^verbatim>\<open>exceptions.py\<close>, the only exception the public methods of
  \<^verbatim>\<open>MLService\<close> raise: each of them wraps its body in
  \<^verbatim>\<open>try ... except Exception as e: raise MLServiceException(...)\<close>.\<close>

datatype exn =
    TypeError
  | IndexError
  | AttributeError
  | NotFittedError
  | PredictorError
  | ScalerError
  | IntegrityError
  | TaskError string

datatype error = MLServiceException string exn

text \<open>A model object held in \<^verbatim>\<open>self.models\<close>. \<open>Fitted f\<close> is a model loaded with
  \<^verbatim>\<open>joblib.load\<close>; \<open>f v\<close> is the row \<^verbatim>\<open>predict_proba([v])[0]\<close>, or \<open>None\<close> when
  the predictor raises. The two default models are the estimators that
  \<^verbatim>\<open>_create_default_model\<close> constructs and never fits.\<close>

datatype model =
    Fitted "real list \<Rightarrow> real list option"
  | DefaultClassifier
  | DefaultRegressor

type_synonym scaler = "real list \<Rightarrow> real list option"

text \<open>A file under the model storage path: a pickle that \<^verbatim>\<open>joblib.load\<close> reads, or
  one on which it raises.\<close>

datatype 'a pickle = Pickled 'a | Corrupt

text \<open>The rows of \<^verbatim>\<open>ml_models\<close>, \<^verbatim>\<open>training_jobs\<close> and \<^verbatim>\<open>predictions\<close>
  (\<^verbatim>\<open>database.py\<close>), with the columns that the methods below read or write; the opaque
  JSON columns they only copy (training configuration, hyperparameters) are left out.\<close>

record model_row =
  m_id :: string
  m_model_type :: string
  m_version :: string
  m_status :: string
  m_deployment_date :: "nat option"

record job_row =
  j_id :: string
  j_model_type :: string
  j_status :: string
  j_progress :: real
  j_performance_metrics :: "(string \<times> real) list option"
  j_error_message :: "string option"
  j_created_at :: nat
  j_started_at :: "nat option"
  j_completed_at :: "nat option"

record ub_predictions =
  churn_probability :: real
  engagement_level :: string
  next_activity :: string

record ub_confidence =
  conf_churn_probability :: real
  conf_engagement_level :: real
  conf_next_activity :: real

record prediction_row =
  p_id :: string
  p_model_type :: string
  p_user_id :: "string option"
  p_project_id :: "string option"
  p_features :: features
  p_predictions :: ub_predictions
  p_confidence_scores :: ub_confidence
  p_created_at :: nat

text \<open>A message handed to Celery by \<^verbatim>\<open>send_task\<close>: the task name and its leading
  arguments.\<close>

datatype celery_task =
    Train_model string string
  | Ingest_data string string string

text \<open>The state the service works on: the three tables, the in-process registries
  \<^verbatim>\<open>self.models\<close> and \<^verbatim>\<open>self.scalers\<close>, the files under
  \<^verbatim>\<open>self.model_storage_path\<close>, and what was sent to Celery.\<close>

record service =
  ml_models :: "model_row list"
  training_jobs :: "job_row list"
  predictions :: "prediction_row list"
  models :: "(string \<times> model) list"
  scalers :: "(string \<times> scaler) list"
  model_files :: "(string \<times> model pickle) list"
  scaler_files :: "(string \<times> scaler pickle) list"
  sent_tasks :: "celery_task list"
  revoked :: "string list"

subsection \<open>ml_service.py: the model registry\<close>

text \<open>\<^verbatim>\<open>_load_model\<close>: the whole body is inside \<^verbatim>\<open>try ... except\<close>, which logs
  and swallows the exception, so a failing load of the model skips the scaler.\<close>

definition load_model :: "service \<Rightarrow> string \<Rightarrow> string \<Rightarrow> service" where
  "load_model s model_type version =
     (let key = model_type @ ''_'' @ version;
          model_path = key @ ''.pkl'';
          scaler_path = key @ ''_scaler.pkl''
      in case map_of (model_files s) model_path of
           Some Corrupt \<Rightarrow> s
         | loaded \<Rightarrow>
             (let s1 = (case loaded of
                          Some (Pickled m) \<Rightarrow> s\<lparr>models := dict_set (models s) key m\<rparr>
                        | _ \<Rightarrow> s)
              in case map_of (scaler_files s1) scaler_path of
                   Some (Pickled sc) \<Rightarrow> s1\<lparr>scalers := dict_set (scalers s1) key sc\<rparr>
                 | _ \<Rightarrow> s1))"

record deploy_info =
  di_model_type :: string
  di_version :: string
  deployed_at :: nat

text \<open>\<^verbatim>\<open>deploy_model\<close>: one \<^verbatim>\<open>UPDATE ml_models SET status = 'deployed',
  deployment_date = now WHERE model_type = ... AND version = ...\<close>, then
  \<^verbatim>\<open>_load_model\<close>. No other statement touches the table.\<close>

definition deploy_model :: "service \<Rightarrow> string \<Rightarrow> string \<Rightarrow> nat \<Rightarrow> deploy_info \<times> service" where
  "deploy_model s model_type version now =
     (let s1 = s\<lparr>ml_models :=
                   map (\<lambda>r. if m_model_type r = model_type \<and> m_version r = version
                            then r\<lparr>m_status := ''deployed'', m_deployment_date := Some now\<rparr>
                            else r)
                       (ml_models s)\<rparr>;
          s2 = load_model s1 model_type version
      in (\<lparr>di_model_type = model_type, di_version = version, deployed_at = now\<rparr>, s2))"

text \<open>A sequence of \<^verbatim>\<open>deploy_model\<close> calls, each with its model type, version and
  clock reading.\<close>

fun deploy_calls :: "service \<Rightarrow> (string \<times> string \<times> nat) list \<Rightarrow> service" where
  "deploy_calls s [] = s"
| "deploy_calls s ((model_type, version, now) # calls) =
     deploy_calls (snd (deploy_model s model_type version now)) calls"

definition create_default_model :: "string \<Rightarrow> model" where
  "create_default_model model_type =
     (if model_type \<in> set [''user_behavior'', ''project_success'', ''anomaly_detection'']
      then DefaultClassifier
      else DefaultRegressor)"

text \<open>\<^verbatim>\<open>version or 'latest'\<close>: \<^verbatim>\<open>None\<close> and the empty string are both falsy.\<close>

definition version_or_latest :: "string option \<Rightarrow> string" where
  "version_or_latest version =
     (case version of None \<Rightarrow> ''latest'' | Some v \<Rightarrow> if v = [] then ''latest'' else v)"

definition get_model :: "service \<Rightarrow> string \<Rightarrow> string option \<Rightarrow> model \<times> service" where
  "get_model s model_type version =
     (let model_key = model_type @ ''_'' @ version_or_latest version
      in case map_of (models s) model_key of
           Some m \<Rightarrow> (m, s)
         | None \<Rightarrow>
             (let model_key = model_type @ ''_latest''
              in case map_of (models s) model_key of
                   Some m \<Rightarrow> (m, s)
                 | None \<Rightarrow>
                     (let m = create_default_model model_type
                      in (m, s\<lparr>models := dict_set (models s) model_key m\<rparr>))))"

subsection \<open>ml_service.py: feature preparation\<close>

definition feature_names :: "(string \<times> string list) list" where
  "feature_names =
     [(''user_behavior'',
         [''activity_score'', ''project_count'', ''collaboration_score'', ''ai_usage_frequency'']),
      (''project_success'',
         [''complexity_score'', ''team_size'', ''duration_estimate'', ''technology_maturity'']),
      (''resource_usage'',
         [''current_cpu'', ''current_memory'', ''current_storage'', ''user_count'']),
      (''anomaly_detection'',
         [''cpu_usage'', ''memory_usage'', ''request_rate'', ''error_rate''])]"

fun py_float :: "pyval \<Rightarrow> exn + real" where
  "py_float (Num x) = Inr x"
| "py_float NonNum = Inl TypeError"

text \<open>\<^verbatim>\<open>features.get(name, default)\<close>.\<close>

definition features_get :: "features \<Rightarrow> string \<Rightarrow> real \<Rightarrow> pyval" where
  "features_get fs name dflt = (case map_of fs name of None \<Rightarrow> Num dflt | Some v \<Rightarrow> v)"

text \<open>The comprehension \<^verbatim>\<open>[float(features.get(name, 0.0)) for name in
  selected_features]\<close>: the first \<^verbatim>\<open>float()\<close> that raises ends it.\<close>

fun floats :: "features \<Rightarrow> string list \<Rightarrow> exn + real list" where
  "floats fs [] = Inr []"
| "floats fs (name # names) =
     (case py_float (features_get fs name 0.0) of
        Inl e \<Rightarrow> Inl e
      | Inr x \<Rightarrow> (case floats fs names of Inl e \<Rightarrow> Inl e | Inr xs \<Rightarrow> Inr (x # xs)))"

definition prepare_features :: "features \<Rightarrow> string \<Rightarrow> exn + real list" where
  "prepare_features fs model_type =
     (let selected_features =
            (case map_of feature_names model_type of
               Some names \<Rightarrow> names
             | None \<Rightarrow> take 4 (map fst fs))
      in floats fs selected_features)"

subsection \<open>ml_service.py: post-processing helpers\<close>

definition classify_engagement :: "real \<Rightarrow> string" where
  "classify_engagement churn_prob =
     (if churn_prob < 0.3 then ''high''
      else if churn_prob < 0.7 then ''medium''
      else ''low'')"

text \<open>\<^verbatim>\<open>max(activity_scores, key=activity_scores.get)\<close>: the first key, in insertion
  order, whose value is maximal (a later key wins only with a strictly greater value).\<close>

fun py_max_key :: "string \<times> real \<Rightarrow> (string \<times> real) list \<Rightarrow> string" where
  "py_max_key (k, v) [] = k"
| "py_max_key (k, v) ((k', v') # rest) =
     (if v' > v then py_max_key (k', v') rest else py_max_key (k, v) rest)"

text \<open>\<^verbatim>\<open>_predict_next_activity\<close>: the division by 10 and the comparisons of
  \<^verbatim>\<open>max\<close> raise \<^verbatim>\<open>TypeError\<close> on a value that is not a number.\<close>

definition predict_next_activity :: "string \<Rightarrow> features \<Rightarrow> exn + string" where
  "predict_next_activity user_id fs =
     (case (features_get fs ''ai_usage_frequency'' 0.5,
            features_get fs ''project_count'' 0,
            features_get fs ''collaboration_score'' 0.5) of
        (Num a, Num p, Num c) \<Rightarrow>
          Inr (py_max_key (''code_generation'', a)
                 [(''project_creation'', p / 10), (''collaboration'', c), (''documentation'', 0.3)])
      | _ \<Rightarrow> Inl TypeError)"

text \<open>\<^verbatim>\<open>sub in s\<close> on strings.\<close>

fun contains :: "string \<Rightarrow> string \<Rightarrow> bool" where
  "contains sub [] = (sub = [])"
| "contains sub (c # cs) = (take (length sub) (c # cs) = sub \<or> contains sub cs)"

fun importance_loop :: "features \<Rightarrow> (string \<times> real) list \<Rightarrow> (string \<times> real) list" where
  "importance_loop [] importance_scores = importance_scores"
| "importance_loop ((feature, v) # rest) importance_scores =
     importance_loop rest
       (dict_set importance_scores feature
          (if contains ''score'' feature then 0.3
           else if contains ''count'' feature then 0.2
           else 0.1))"

definition get_feature_importance :: "string \<Rightarrow> features \<Rightarrow> (string \<times> real) list" where
  "get_feature_importance model_type fs = importance_loop fs []"

subsection \<open>ml_service.py: prediction\<close>

text \<open>\<^verbatim>\<open>model.predict_proba(feature_vector)[0]\<close>: an estimator that was never fitted
  raises \<^verbatim>\<open>NotFittedError\<close>, and a regressor has no \<^verbatim>\<open>predict_proba\<close>.\<close>

fun predict_proba :: "model \<Rightarrow> real list \<Rightarrow> exn + real list" where
  "predict_proba (Fitted f) v = (case f v of None \<Rightarrow> Inl PredictorError | Some row \<Rightarrow> Inr row)"
| "predict_proba DefaultClassifier v = Inl NotFittedError"
| "predict_proba DefaultRegressor v = Inl AttributeError"

text \<open>\<^verbatim>\<open>_store_prediction\<close>. Its parameter \<^verbatim>\<open>predictions\<close> (the dict of
  predictions) hides the table \<^verbatim>\<open>predictions\<close> imported from \<^verbatim>\<open>database.py\<close>, so
  \<^verbatim>\<open>predictions.insert()\<close> is looked up on a dict and raises
  \<^verbatim>\<open>AttributeError\<close> before \<^verbatim>\<open>database.execute\<close> is called; the
  \<^verbatim>\<open>except\<close> clause of the method logs the exception and swallows it. The method
  therefore returns normally and the table is as before.\<close>

definition store_prediction ::
  "service \<Rightarrow> string \<Rightarrow> string \<Rightarrow> string option \<Rightarrow> string option \<Rightarrow> features
     \<Rightarrow> ub_predictions \<Rightarrow> ub_confidence \<Rightarrow> nat \<Rightarrow> service" where
  "store_prediction s prediction_id model_type user_id project_id fs preds confidence now = s"

record prediction_result =
  prediction_id :: string
  result_predictions :: ub_predictions
  result_confidence_scores :: ub_confidence
  result_model_version :: string
  feature_importance :: "(string \<times> real) list"

text \<open>\<^verbatim>\<open>predict_user_behavior\<close>. The body is one \<^verbatim>\<open>try\<close> block: any exception \<open>e\<close>
  leaves it as \<^verbatim>\<open>MLServiceException("User behavior prediction failed",
  details=str(e))\<close>. What \<^verbatim>\<open>_get_model\<close> did to \<^verbatim>\<open>self.models\<close> before the
  exception stays done. The parameters \<open>new_id\<close> and \<open>now\<close> are the values of
  \<^verbatim>\<open>uuid.uuid4()\<close> and \<^verbatim>\<open>datetime.utcnow()\<close>.\<close>

definition prediction_failed :: "exn \<Rightarrow> error" where
  "prediction_failed e = MLServiceException ''User behavior prediction failed'' e"

definition predict_user_behavior ::
  "service \<Rightarrow> string \<Rightarrow> nat \<Rightarrow> string \<Rightarrow> features \<Rightarrow> string option
     \<Rightarrow> (error + prediction_result) \<times> service" where
  "predict_user_behavior s new_id now user_id fs model_version =
     (let model_type = ''user_behavior'';
          (mdl, s1) = get_model s model_type model_version;
          scaler = map_of (scalers s1) (model_type @ ''_'' @ version_or_latest model_version)
      in (case prepare_features fs model_type of
            Inl e \<Rightarrow> (Inl (prediction_failed e), s1)
          | Inr feature_vector \<Rightarrow>
         (case (case scaler of None \<Rightarrow> Some feature_vector | Some sc \<Rightarrow> sc feature_vector) of
            None \<Rightarrow> (Inl (prediction_failed ScalerError), s1)
          | Some scaled \<Rightarrow>
         (case predict_proba mdl scaled of
            Inl e \<Rightarrow> (Inl (prediction_failed e), s1)
          | Inr predictions_raw \<Rightarrow>
         (if length predictions_raw < 2 then (Inl (prediction_failed IndexError), s1)
          else
         (case predict_next_activity user_id fs of
            Inl e \<Rightarrow> (Inl (prediction_failed e), s1)
          | Inr activity \<Rightarrow>
         (let preds = \<lparr>churn_probability = predictions_raw ! 1,
                       engagement_level = classify_engagement (predictions_raw ! 1),
                       next_activity = activity\<rparr>;
              confidence = \<lparr>conf_churn_probability = Max (set predictions_raw),
                            conf_engagement_level = 0.85,
                            conf_next_activity = 0.72\<rparr>;
              s2 = store_prediction s1 new_id model_type (Some user_id) None fs preds
                     confidence now
          in (Inr \<lparr>prediction_id = new_id, result_predictions = preds,
                    result_confidence_scores = confidence,
                    result_model_version = version_or_latest model_version,
                    feature_importance = get_feature_importance model_type fs\<rparr>,
              s2))))))))"

subsection \<open>ml_service.py: jobs\<close>

text \<open>\<^verbatim>\<open>UPDATE training_jobs SET ... WHERE id = job_id\<close>.\<close>

definition update_job :: "service \<Rightarrow> string \<Rightarrow> (job_row \<Rightarrow> job_row) \<Rightarrow> service" where
  "update_job s job_id f =
     s\<lparr>training_jobs := map (\<lambda>j. if j_id j = job_id then f j else j) (training_jobs s)\<rparr>"

text \<open>\<^verbatim>\<open>start_training_job\<close>: inserts the job as \<open>pending\<close> and sends the task. A job id
  already in the table makes the \<^verbatim>\<open>INSERT\<close> raise.\<close>

definition start_training_job ::
  "service \<Rightarrow> string \<Rightarrow> string \<Rightarrow> nat \<Rightarrow> (error + string) \<times> service" where
  "start_training_job s job_id model_type now =
     (if job_id \<in> set (map j_id (training_jobs s))
      then (Inl (MLServiceException ''Failed to start training job'' IntegrityError), s)
      else (Inr job_id,
            s\<lparr>training_jobs := training_jobs s @
                 [\<lparr>j_id = job_id, j_model_type = model_type, j_status = ''pending'',
                   j_progress = 0.0, j_performance_metrics = None, j_error_message = None,
                   j_created_at = now, j_started_at = None, j_completed_at = None\<rparr>],
              sent_tasks := sent_tasks s @ [Train_model job_id model_type]\<rparr>))"

text \<open>\<^verbatim>\<open>start_data_ingestion\<close>: sends the task \<^verbatim>\<open>ingest_data\<close> and writes no row. The
  source registers no task of that name.\<close>

definition start_data_ingestion :: "service \<Rightarrow> string \<Rightarrow> string \<Rightarrow> string \<Rightarrow> string \<times> service" where
  "start_data_ingestion s job_id source data_type =
     (job_id, s\<lparr>sent_tasks := sent_tasks s @ [Ingest_data job_id source data_type]\<rparr>)"

record cancel_result =
  cancelled_job_id :: string
  cancelled_status :: string

text \<open>\<^verbatim>\<open>cancel_job\<close>: revokes the Celery task, then updates the row of the job; the
  \<^verbatim>\<open>WHERE\<close> clause names the id only.\<close>

definition cancel_job :: "service \<Rightarrow> string \<Rightarrow> nat \<Rightarrow> cancel_result \<times> service" where
  "cancel_job s job_id now =
     (let s1 = s\<lparr>revoked := revoked s @ [job_id]\<rparr>;
          s2 = update_job s1 job_id
                 (\<lambda>j. j\<lparr>j_status := ''cancelled'', j_completed_at := Some now\<rparr>)
      in (\<lparr>cancelled_job_id = job_id, cancelled_status = ''cancelled''\<rparr>, s2))"

record task_result =
  task_status :: string
  task_metrics :: "(string \<times> real) list"

text \<open>\<^verbatim>\<open>train_model_task\<close>, the Celery task \<^verbatim>\<open>train_model\<close>. Its statements are
  numbered 0 (the update to \<open>running\<close>), 1 to 5 (the five progress updates) and 6 (the
  update to \<open>completed\<close>); \<open>failure = Some (k, msg)\<close> says that statement \<open>k\<close> raises
  with message \<open>msg\<close>, \<open>None\<close> that none does. The handler then marks the job \<open>failed\<close>
  and raises again. The four metrics are the rounded draws of \<^verbatim>\<open>random.uniform\<close>.\<close>

definition mark_failed :: "service \<Rightarrow> string \<Rightarrow> string \<Rightarrow> nat \<Rightarrow> (exn + task_result) \<times> service" where
  "mark_failed s job_id msg now =
     (Inl (TaskError msg),
      update_job s job_id
        (\<lambda>j. j\<lparr>j_status := ''failed'', j_completed_at := Some now, j_error_message := Some msg\<rparr>))"

definition raises_at :: "(nat \<times> string) option \<Rightarrow> nat \<Rightarrow> string option" where
  "raises_at failure k =
     (case failure of None \<Rightarrow> None | Some (n, msg) \<Rightarrow> if n = k then Some msg else None)"

fun progress_loop ::
  "service \<Rightarrow> string \<Rightarrow> real list \<Rightarrow> nat \<Rightarrow> (nat \<times> string) option \<Rightarrow> string + service" where
  "progress_loop s job_id [] k failure = Inr s"
| "progress_loop s job_id (progress # rest) k failure =
     (case raises_at failure k of
        Some msg \<Rightarrow> Inl msg
      | None \<Rightarrow>
          progress_loop (update_job s job_id (\<lambda>j. j\<lparr>j_progress := progress\<rparr>)) job_id rest
            (Suc k) failure)"

definition train_model_task ::
  "service \<Rightarrow> string \<Rightarrow> string \<Rightarrow> real \<times> real \<times> real \<times> real \<Rightarrow> nat \<Rightarrow> nat
     \<Rightarrow> (nat \<times> string) option \<Rightarrow> (exn + task_result) \<times> service" where
  "train_model_task s job_id model_type draws started completed failure =
     (case raises_at failure 0 of
        Some msg \<Rightarrow> mark_failed s job_id msg completed
      | None \<Rightarrow>
     (let s1 = update_job s job_id
                 (\<lambda>j. j\<lparr>j_status := ''running'', j_started_at := Some started,
                         j_progress := 0.0\<rparr>)
      in (case progress_loop s1 job_id [0.2, 0.4, 0.6, 0.8, 1.0] 1 failure of
            Inl msg \<Rightarrow> mark_failed s1 job_id msg completed
          | Inr s2 \<Rightarrow>
         (let performance_metrics =
                (case draws of (a, p, r, f) \<Rightarrow>
                   [(''accuracy'', a), (''precision'', p), (''recall'', r), (''f1_score'', f)])
          in (case raises_at failure 6 of
                Some msg \<Rightarrow> mark_failed s2 job_id msg completed
              | None \<Rightarrow>
                  (Inr \<lparr>task_status = ''completed'', task_metrics = performance_metrics\<rparr>,
                   update_job s2 job_id
                     (\<lambda>j. j\<lparr>j_status := ''completed'', j_completed_at := Some completed,
                             j_performance_metrics := Some performance_metrics\<rparr>)))))))"

subsection \<open>Example states\<close>

text \<open>A service with two trained versions of \<open>user_behavior\<close> in \<^verbatim>\<open>ml_models\<close>, the
  pickle of version \<open>v1\<close> on disk, nothing loaded and no job.\<close>

definition two_versions :: service where
  "two_versions =
     \<lparr>ml_models =
        [\<lparr>m_id = ''m1'', m_model_type = ''user_behavior'', m_version = ''v1'',
          m_status = ''trained'', m_deployment_date = None\<rparr>,
         \<lparr>m_id = ''m2'', m_model_type = ''user_behavior'', m_version = ''v2'',
          m_status = ''trained'', m_deployment_date = None\<rparr>],
      training_jobs = [], predictions = [], models = [], scalers = [],
      model_files = [(''user_behavior_v1.pkl'', Pickled (Fitted (\<lambda>v. Some [0.4, 0.6])))],
      scaler_files = [], sent_tasks = [], revoked = []\<rparr>"

text \<open>The service above after \<^verbatim>\<open>deploy_model("user_behavior", "v1")\<close>: the record of
  \<open>v1\<close> is \<open>deployed\<close> and its model is loaded under the key \<open>user_behavior_v1\<close>.\<close>

definition v1_deployed :: service where
  "v1_deployed = snd (deploy_model two_versions ''user_behavior'' ''v1'' 1)"

text \<open>A freshly started service: empty tables, empty registries, no files.\<close>

definition fresh :: service where
  "fresh =
     \<lparr>ml_models = [], training_jobs = [], predictions = [], models = [], scalers = [],
      model_files = [], scaler_files = [], sent_tasks = [], revoked = []\<rparr>"

text \<open>The fresh service after \<^verbatim>\<open>start_training_job\<close> for job \<open>job1\<close>, and after the
  task of that job has then run without an exception.\<close>

definition job_pending :: service where
  "job_pending = snd (start_training_job fresh ''job1'' ''user_behavior'' 1)"

definition job_completed :: service where
  "job_completed =
     snd (train_model_task job_pending ''job1'' ''user_behavior'' (0.9, 0.8, 0.85, 0.82) 2 60 None)"

section \<open>Properties\<close>

subsection \<open>Auxiliary facts\<close>

lemma thresholds_pos: "map_of performance_thresholds m = Some t \<Longrightarrow> 0 < t"
  by (auto simp: performance_thresholds_def split: if_splits)

lemma check_loop_eq:
  "check_loop ms (als, st) =
     (als @ map (\<lambda>(m, v).
                  \<lparr>alert_type = ''performance_degradation'', alert_metric = m, current_value = v,
                   alert_threshold = the (map_of performance_thresholds m),
                   severity = (if v < the (map_of performance_thresholds m) * 0.9
                               then ''high'' else ''medium'')\<rparr>)
              (filter (\<lambda>(m, v). \<exists>t. map_of performance_thresholds m = Some t \<and> v < t) ms),
      if filter (\<lambda>(m, v). \<exists>t. map_of performance_thresholds m = Some t \<and> v < t) ms = []
      then st else ''degraded'')"
proof (induction ms arbitrary: als st)
  case Nil
  show ?case by simp
next
  case (Cons mv ms)
  obtain m v where mv: "mv = (m, v)" by (cases mv)
  show ?case
  proof (cases "map_of performance_thresholds m")
    case None
    then show ?thesis using Cons.IH mv by simp
  next
    case (Some t)
    then have "t \<noteq> 0" using thresholds_pos by fastforce
    then show ?thesis using Cons.IH mv Some by simp
  qed
qed

lemma feature_drift_threshold_value: "feature_drift_threshold = 0.1"
  by (simp add: feature_drift_threshold_def drift_thresholds_def)

lemma dict_set_fresh: "k \<notin> fst ` set d \<Longrightarrow> dict_set d k v = d @ [(k, v)]"
  by (induction d) auto

lemma drift_loop_eq:
  "distinct (map fst fs) \<Longrightarrow> fst ` set fs \<inter> fst ` set details = {} \<Longrightarrow>
   drift_loop fs (det, details) =
     (det \<or> (\<exists>(f, stats) \<in> set fs. get_drift_score stats > 0.1),
      details @ map (\<lambda>(f, stats).
                      (f, \<lparr>drift_score = get_drift_score stats, drift_threshold = 0.1\<rparr>))
                  (filter (\<lambda>(f, stats). get_drift_score stats > 0.1) fs))"
proof (induction fs arbitrary: det details)
  case Nil
  show ?case by simp
next
  case (Cons fs1 fs)
  obtain f stats where p: "fs1 = (f, stats)" by (cases fs1)
  have fresh: "f \<notin> fst ` set details" using Cons.prems p by auto
  have d: "distinct (map fst fs)" using Cons.prems by simp
  show ?case
  proof (cases "get_drift_score stats > 0.1")
    case True
    let ?d' = "details @ [(f, \<lparr>drift_score = get_drift_score stats, drift_threshold = 0.1\<rparr>)]"
    have "fst ` set fs \<inter> fst ` set ?d' = {}" using Cons.prems p by auto
    from Cons.IH[OF d this, of True] True fresh p show ?thesis
      by (simp add: dict_set_fresh feature_drift_threshold_value)
  next
    case False
    have "fst ` set fs \<inter> fst ` set details = {}" using Cons.prems by auto
    from Cons.IH[OF d this, of det] False p show ?thesis
      by (simp add: feature_drift_threshold_value)
  qed
qed

lemma ml_models_load_model: "ml_models (load_model s mt v) = ml_models s"
  by (simp add: load_model_def Let_def split: option.splits pickle.splits)

lemma ml_models_deploy_model:
  "ml_models (snd (deploy_model s mt v now)) =
     map (\<lambda>r. if m_model_type r = mt \<and> m_version r = v
              then r\<lparr>m_status := ''deployed'', m_deployment_date := Some now\<rparr> else r)
         (ml_models s)"
  by (simp add: deploy_model_def Let_def ml_models_load_model)

lemma ml_models_update_job: "ml_models (update_job s job_id f) = ml_models s"
  by (simp add: update_job_def)

lemma ml_models_mark_failed: "ml_models (snd (mark_failed s job_id msg now)) = ml_models s"
  by (simp add: mark_failed_def ml_models_update_job)

lemma ml_models_progress_loop:
  "progress_loop s job_id ps k failure = Inr s' \<Longrightarrow> ml_models s' = ml_models s"
  by (induction ps arbitrary: s k) (auto simp: ml_models_update_job split: option.splits)

lemma ml_models_train_model_task:
  "ml_models (snd (train_model_task s job_id mt draws t0 t1 failure)) = ml_models s"
proof (cases "raises_at failure 0")
  case (Some msg)
  then show ?thesis by (simp add: train_model_task_def ml_models_mark_failed)
next
  case None
  let ?s1 = "update_job s job_id
               (\<lambda>j. j\<lparr>j_status := ''running'', j_started_at := Some t0, j_progress := 0.0\<rparr>)"
  show ?thesis
  proof (cases "progress_loop ?s1 job_id [0.2, 0.4, 0.6, 0.8, 1.0] 1 failure")
    case (Inl msg)
    with None show ?thesis
      by (simp add: train_model_task_def Let_def ml_models_mark_failed ml_models_update_job)
  next
    case (Inr s2)
    then have "ml_models s2 = ml_models s"
      using ml_models_progress_loop ml_models_update_job by metis
    with None Inr show ?thesis
      by (cases "raises_at failure 6")
         (simp_all add: train_model_task_def Let_def ml_models_mark_failed ml_models_update_job)
  qed
qed

lemma raises_at_None: "raises_at None k = None"
  by (simp add: raises_at_def)

lemma update_job_running_progress:
  "update_job (update_job s job_id (\<lambda>j. j\<lparr>j_status := st, j_started_at := t, j_progress := p\<rparr>))
     job_id (\<lambda>j. j\<lparr>j_progress := q\<rparr>)
   = update_job s job_id (\<lambda>j. j\<lparr>j_status := st, j_started_at := t, j_progress := q\<rparr>)"
  by (simp add: update_job_def o_def cong: if_cong)

lemma update_job_running_completed:
  "update_job (update_job s job_id (\<lambda>j. j\<lparr>j_status := st, j_started_at := t, j_progress := p\<rparr>))
     job_id (\<lambda>j. j\<lparr>j_status := st', j_completed_at := t', j_performance_metrics := pm\<rparr>)
   = update_job s job_id
       (\<lambda>j. j\<lparr>j_status := st', j_started_at := t, j_progress := p, j_completed_at := t',
               j_performance_metrics := pm\<rparr>)"
  by (simp add: update_job_def o_def cong: if_cong)

lemma train_model_task_success:
  "train_model_task s job_id mt (a, p, r, f) t0 t1 None =
     (Inr \<lparr>task_status = ''completed'',
           task_metrics = [(''accuracy'', a), (''precision'', p), (''recall'', r), (''f1_score'', f)]\<rparr>,
      update_job s job_id
        (\<lambda>j. j\<lparr>j_status := ''completed'', j_started_at := Some t0, j_progress := 1.0,
                j_completed_at := Some t1,
                j_performance_metrics :=
                  Some [(''accuracy'', a), (''precision'', p), (''recall'', r),
                        (''f1_score'', f)]\<rparr>))"
  by (simp add: train_model_task_def raises_at_None Let_def update_job_running_progress
        update_job_running_completed)

lemma training_jobs_cancel_job:
  "training_jobs (snd (cancel_job s job_id now)) =
     map (\<lambda>j. if j_id j = job_id then j\<lparr>j_status := ''cancelled'', j_completed_at := Some now\<rparr>
              else j)
         (training_jobs s)"
  by (simp add: cancel_job_def update_job_def Let_def)

lemma job_pending_value:
  "job_pending =
     fresh\<lparr>training_jobs :=
             [\<lparr>j_id = ''job1'', j_model_type = ''user_behavior'', j_status = ''pending'',
               j_progress = 0, j_performance_metrics = None, j_error_message = None,
               j_created_at = 1, j_started_at = None, j_completed_at = None\<rparr>],
           sent_tasks := [Train_model ''job1'' ''user_behavior'']\<rparr>"
  by (simp add: job_pending_def start_training_job_def fresh_def)

lemma updated_row:
  assumes "j \<in> set (training_jobs (update_job s job_id f))" and "j_id j = job_id"
    and "\<And>x. j_id (f x) = j_id x"
  shows "\<exists>x. j = f x"
proof -
  from assms(1) have "j \<in> (\<lambda>x. if j_id x = job_id then f x else x) ` set (training_jobs s)"
    by (simp add: update_job_def)
  then obtain x where x: "j = (if j_id x = job_id then f x else x)"
    by (rule imageE)
  show ?thesis
  proof (cases "j_id x = job_id")
    case True
    with x show ?thesis by auto
  next
    case False
    with x assms(2) show ?thesis by simp
  qed
qed

lemma completed_rows:
  assumes "j \<in> set (training_jobs (update_job s2 job_id
                (\<lambda>j. j\<lparr>j_status := ''completed'', j_completed_at := Some t1,
                        j_performance_metrics := Some pm\<rparr>)))" and "j_id j = job_id"
  shows "j_status j = ''completed'' \<and> j_performance_metrics j = Some pm"
proof -
  from updated_row[OF assms] obtain x where
    "j = x\<lparr>j_status := ''completed'', j_completed_at := Some t1,
           j_performance_metrics := Some pm\<rparr>" by auto
  then show ?thesis by simp
qed

lemma train_model_task_Inr:
  assumes run: "train_model_task s job_id mt draws t0 t1 failure = (Inr r, s')"
  shows "\<exists>s2 pm. r = \<lparr>task_status = ''completed'', task_metrics = pm\<rparr> \<and>
           s' = update_job s2 job_id
                  (\<lambda>j. j\<lparr>j_status := ''completed'', j_completed_at := Some t1,
                          j_performance_metrics := Some pm\<rparr>)"
proof -
  let ?s1 = "update_job s job_id
               (\<lambda>j. j\<lparr>j_status := ''running'', j_started_at := Some t0, j_progress := 0.0\<rparr>)"
  let ?loop = "progress_loop ?s1 job_id [0.2, 0.4, 0.6, 0.8, 1.0] 1 failure"
  have r0: "raises_at failure 0 = None"
  proof (cases "raises_at failure 0")
    case (Some msg)
    with run show ?thesis by (simp add: train_model_task_def mark_failed_def)
  qed simp
  obtain s2 where loop: "?loop = Inr s2"
  proof (cases ?loop)
    case (Inl msg)
    with run r0 have False
      by (simp only: train_model_task_def Let_def option.case sum.case mark_failed_def) simp
    then show ?thesis ..
  qed simp
  have r6: "raises_at failure 6 = None"
  proof (cases "raises_at failure 6")
    case (Some msg)
    with run r0 loop have False
      by (simp only: train_model_task_def Let_def option.case sum.case mark_failed_def) simp
    then show ?thesis ..
  qed simp
  from run r0 loop r6 show ?thesis
    by (simp only: train_model_task_def Let_def option.case sum.case prod.inject sum.inject)
       blast
qed

lemma job_completed_value:
  "job_completed =
     fresh\<lparr>training_jobs :=
             [\<lparr>j_id = ''job1'', j_model_type = ''user_behavior'', j_status = ''completed'',
               j_progress = 1,
               j_performance_metrics =
                 Some [(''accuracy'', 0.9), (''precision'', 0.8), (''recall'', 0.85),
                       (''f1_score'', 0.82)],
               j_error_message = None,
               j_created_at = 1, j_started_at = Some 2, j_completed_at = Some 60\<rparr>],
           sent_tasks := [Train_model ''job1'' ''user_behavior'']\<rparr>"
  by (simp add: job_completed_def train_model_task_success job_pending_value update_job_def
        fresh_def)

lemma filter_other_jobs:
  "(\<And>j. j_id (f j) = j_id j) \<Longrightarrow>
   filter (\<lambda>j. j_id j \<noteq> job_id) (map (\<lambda>j. if j_id j = job_id then f j else j) xs)
     = filter (\<lambda>j. j_id j \<noteq> job_id) xs"
  by (induction xs) auto

lemma floats_numeric:
  "\<forall>n \<in> set names. map_of fs n \<noteq> Some NonNum \<Longrightarrow>
   floats fs names = Inr (map (\<lambda>n. case map_of fs n of Some (Num x) \<Rightarrow> x | _ \<Rightarrow> 0) names)"
  by (induction names) (auto simp: features_get_def split: option.splits pyval.splits)

lemma py_float_Inl: "py_float v = Inl e \<Longrightarrow> v = NonNum"
  by (cases v) auto

lemma floats_error:
  "floats fs names = Inl e \<Longrightarrow> \<exists>n \<in> set names. map_of fs n = Some NonNum"
  by (induction names)
     (auto simp: features_get_def dest: py_float_Inl split: option.splits sum.splits)

lemma map_of_Num: "map_of (map (\<lambda>(k, x). (k, Num x)) nfs) n = map_option Num (map_of nfs n)"
  by (induction nfs) auto

lemma floats_own_keys:
  "distinct (map fst nfs) \<Longrightarrow> set ks \<subseteq> set nfs \<Longrightarrow>
   floats (map (\<lambda>(k, x). (k, Num x)) nfs) (map fst ks) = Inr (map snd ks)"
  by (induction ks) (auto simp: features_get_def map_of_Num)

lemma map_of_dict_set: "map_of (dict_set d k v) k = Some v"
  by (induction d) auto

lemma dict_set_absent: "map_of d k = None \<Longrightarrow> dict_set d k v = d @ [(k, v)]"
  by (rule dict_set_fresh) (simp add: map_of_eq_None_iff)

lemma predictions_get_model: "predictions (snd (get_model s mt v)) = predictions s"
  by (simp add: get_model_def Let_def split: option.splits)

lemma prepare_features_empty: "prepare_features [] ''user_behavior'' = Inr [0, 0, 0, 0]"
  by (simp add: prepare_features_def feature_names_def features_get_def)

lemma predict_next_activity_empty: "predict_next_activity uid [] = Inr ''code_generation''"
  by (simp add: predict_next_activity_def features_get_def)

lemma predict_user_behavior_failure:
  assumes "predict_user_behavior s new_id now uid fs mv = (Inl e, s')"
  shows "(\<exists>x. e = MLServiceException ''User behavior prediction failed'' x) \<and>
         s' = snd (get_model s ''user_behavior'' mv)"
proof -
  obtain mdl s1 where g: "get_model s ''user_behavior'' mv = (mdl, s1)"
    by (cases "get_model s ''user_behavior'' mv")
  from assms show ?thesis
    unfolding predict_user_behavior_def Let_def g prod.case
    by (auto simp: prediction_failed_def split: sum.splits option.splits if_splits)
qed

lemma predict_user_behavior_success:
  assumes g: "get_model s ''user_behavior'' mv = (Fitted f, s1)"
    and sc: "map_of (scalers s1) (''user_behavior'' @ ''_'' @ version_or_latest mv) = None"
    and f: "f [0, 0, 0, 0] = Some raw" and len: "2 \<le> length raw"
  shows "\<exists>r. fst (predict_user_behavior s new_id now uid [] mv) = Inr r \<and>
             churn_probability (result_predictions r) = raw ! 1"
  using sc f len
  unfolding predict_user_behavior_def Let_def g prod.case
  by (simp add: prepare_features_empty predict_next_activity_empty)

lemma v1_deployed_value:
  "v1_deployed =
     two_versions
       \<lparr>ml_models :=
          [\<lparr>m_id = ''m1'', m_model_type = ''user_behavior'', m_version = ''v1'',
            m_status = ''deployed'', m_deployment_date = Some 1\<rparr>,
           \<lparr>m_id = ''m2'', m_model_type = ''user_behavior'', m_version = ''v2'',
            m_status = ''trained'', m_deployment_date = None\<rparr>],
        models := [(''user_behavior_v1'', Fitted (\<lambda>v. Some [0.4, 0.6]))]\<rparr>"
  by (simp add: v1_deployed_def deploy_model_def load_model_def two_versions_def Let_def)

subsection \<open>The claims\<close>

text \<open>C1 fails as stated: with versions \<open>v1\<close> and \<open>v2\<close> of \<open>user_behavior\<close> registered,
  deploying \<open>v1\<close> and then \<open>v2\<close> leaves both records \<open>deployed\<close>; \<open>v1\<close> is not retired.\<close>

theorem deploy_second_version_keeps_first_deployed:
  "map m_model_type (ml_models two_versions) = [''user_behavior'', ''user_behavior''] \<and>
   map m_version (ml_models two_versions) = [''v1'', ''v2''] \<and>
   map m_status
     (ml_models (deploy_calls two_versions
                   [(''user_behavior'', ''v1'', 1), (''user_behavior'', ''v2'', 2)]))
   = [''deployed'', ''deployed'']"
  by (simp add: two_versions_def ml_models_deploy_model)

text \<open>C1 as amended: a sequence of \<^verbatim>\<open>deploy_model\<close> calls keeps the model type and version
  of every record, sets the status of exactly the records named by one of the calls to
  \<open>deployed\<close>, and leaves the status of every other record as it was. No call retires a
  record, so a record that is \<open>deployed\<close> stays so.\<close>

theorem deploy_calls_never_retire:
  "map (\<lambda>r. (m_model_type r, m_version r, m_status r)) (ml_models (deploy_calls s calls)) =
     map (\<lambda>r. (m_model_type r, m_version r,
                if (m_model_type r, m_version r) \<in> (\<lambda>(mt, v, t). (mt, v)) ` set calls
                then ''deployed'' else m_status r))
         (ml_models s)"
proof (induction calls arbitrary: s)
  case Nil
  show ?case by simp
next
  case (Cons c calls)
  obtain mt v t where c: "c = (mt, v, t)" by (cases c)
  show ?case
    unfolding c deploy_calls.simps Cons.IH ml_models_deploy_model
    by (auto simp: o_def)
qed

text \<open>An instance of the amended C1: deploying \<open>v2\<close> alone leaves \<open>v1\<close> as \<open>trained\<close>.\<close>

theorem deploy_calls_never_retire_witness:
  "map (\<lambda>r. (m_model_type r, m_version r, m_status r))
     (ml_models (deploy_calls two_versions [(''user_behavior'', ''v2'', 7)]))
   = [(''user_behavior'', ''v1'', ''trained''), (''user_behavior'', ''v2'', ''deployed'')]"
  using deploy_calls_never_retire [of two_versions "[(''user_behavior'', ''v2'', 7)]"]
  by (simp add: two_versions_def)

text \<open>C2 fails as stated: the training task of job \<open>job1\<close> runs to its end without an
  exception and returns \<open>completed\<close> with its metrics, and the table \<^verbatim>\<open>ml_models\<close>, empty
  before, is still empty: no ModelRecord was created.\<close>

theorem training_success_registers_nothing:
  "fst (train_model_task job_pending ''job1'' ''user_behavior'' (0.9, 0.8, 0.85, 0.82) 2 60 None)
     = Inr \<lparr>task_status = ''completed'',
            task_metrics = [(''accuracy'', 0.9), (''precision'', 0.8), (''recall'', 0.85),
                            (''f1_score'', 0.82)]\<rparr> \<and>
   ml_models job_pending = [] \<and>
   ml_models (snd (train_model_task job_pending ''job1'' ''user_behavior''
                     (0.9, 0.8, 0.85, 0.82) 2 60 None)) = []"
  by (simp add: train_model_task_success ml_models_update_job job_pending_value fresh_def)

text \<open>C2 as amended: the training task never changes the table \<^verbatim>\<open>ml_models\<close>, whether
  it completes or fails, so a training job that completes creates no ModelRecord and
  deploys none; when it completes it returns \<open>completed\<close> and the row of the job has
  status \<open>completed\<close> and the produced metrics; a task in which no statement raises does
  complete; and starting an ingestion job does not change \<^verbatim>\<open>ml_models\<close> either.\<close>

theorem train_model_task_models_unchanged:
  "ml_models (snd (train_model_task s job_id mt draws t0 t1 failure)) = ml_models s \<and>
   (\<forall>r s'. train_model_task s job_id mt draws t0 t1 failure = (Inr r, s') \<longrightarrow>
      task_status r = ''completed'' \<and>
      (\<forall>j \<in> set (training_jobs s'). j_id j = job_id \<longrightarrow>
         j_status j = ''completed'' \<and> j_performance_metrics j = Some (task_metrics r))) \<and>
   (\<exists>r. fst (train_model_task s job_id mt draws t0 t1 None) = Inr r) \<and>
   ml_models (snd (start_data_ingestion s new_id source data_type)) = ml_models s"
proof (intro conjI allI impI)
  show "ml_models (snd (train_model_task s job_id mt draws t0 t1 failure)) = ml_models s"
    by (rule ml_models_train_model_task)
  show "\<exists>r. fst (train_model_task s job_id mt draws t0 t1 None) = Inr r"
    by (cases draws) (simp add: train_model_task_success)
  show "ml_models (snd (start_data_ingestion s new_id source data_type)) = ml_models s"
    by (simp add: start_data_ingestion_def)
next
  fix r s'
  assume run: "train_model_task s job_id mt draws t0 t1 failure = (Inr r, s')"
  from train_model_task_Inr[OF run] obtain s2 pm where
    r: "r = \<lparr>task_status = ''completed'', task_metrics = pm\<rparr>" and
    s': "s' = update_job s2 job_id
                (\<lambda>j. j\<lparr>j_status := ''completed'', j_completed_at := Some t1,
                        j_performance_metrics := Some pm\<rparr>)"
    by blast
  show "task_status r = ''completed''" using r by simp
  show "\<forall>j \<in> set (training_jobs s'). j_id j = job_id \<longrightarrow>
         j_status j = ''completed'' \<and> j_performance_metrics j = Some (task_metrics r)"
  proof (intro ballI impI)
    fix j
    assume "j \<in> set (training_jobs s')" and "j_id j = job_id"
    then have "j_status j = ''completed'' \<and> j_performance_metrics j = Some pm"
      unfolding s' by (rule completed_rows)
    then show "j_status j = ''completed'' \<and> j_performance_metrics j = Some (task_metrics r)"
      using r by simp
  qed
qed

text \<open>An instance of the amended C2: the task of the pending job \<open>job1\<close> completes, its
  row is \<open>completed\<close>, and \<^verbatim>\<open>ml_models\<close> is as before.\<close>

theorem train_model_task_models_unchanged_witness:
  "train_model_task job_pending ''job1'' ''user_behavior'' (0.9, 0.8, 0.85, 0.82) 2 60 None
     = (Inr \<lparr>task_status = ''completed'',
             task_metrics = [(''accuracy'', 0.9), (''precision'', 0.8), (''recall'', 0.85),
                             (''f1_score'', 0.82)]\<rparr>, job_completed) \<and>
   map j_id (training_jobs job_completed) = [''job1''] \<and>
   map j_status (training_jobs job_completed) = [''completed''] \<and>
   ml_models job_completed = ml_models job_pending"
proof -
  let ?r = "\<lparr>task_status = ''completed'',
             task_metrics = [(''accuracy'', 0.9), (''precision'', 0.8), (''recall'', 0.85),
                             (''f1_score'', 0.82 :: real)]\<rparr>"
  have run: "train_model_task job_pending ''job1'' ''user_behavior'' (0.9, 0.8, 0.85, 0.82) 2 60
               None = (Inr ?r, job_completed)"
    by (simp add: job_completed_def train_model_task_success)
  have ids: "map j_id (training_jobs job_completed) = [''job1'']"
    by (simp add: job_completed_value)
  note inst = train_model_task_models_unchanged
                [of job_pending "''job1''" "''user_behavior''" "(0.9, 0.8, 0.85, 0.82)" 2 60 None]
  from inst have "ml_models (snd (train_model_task job_pending ''job1'' ''user_behavior''
                                    (0.9, 0.8, 0.85, 0.82) 2 60 None)) = ml_models job_pending"
    by (rule conjunct1)
  then have m: "ml_models job_completed = ml_models job_pending"
    by (simp only: run snd_conv)
  from inst run have
    st: "\<forall>j \<in> set (training_jobs job_completed). j_id j = ''job1'' \<longrightarrow>
           j_status j = ''completed'' \<and> j_performance_metrics j = Some (task_metrics ?r)"
    by blast
  obtain j where j: "training_jobs job_completed = [j]" "j_id j = ''job1''"
    using ids by (cases "training_jobs job_completed") auto
  with st have "j_status j = ''completed''" by simp
  with j have "map j_status (training_jobs job_completed) = [''completed'']" by simp
  with run ids m show ?thesis by simp
qed

text \<open>C3 fails as stated: with version \<open>v1\<close> deployed and loaded, \<^verbatim>\<open>predict_user_behavior\<close>
  called with an empty feature map and version \<open>v1\<close> does not fail; it returns a prediction
  computed from the all-zero feature vector.\<close>

theorem predict_empty_features_returns:
  "fst (predict_user_behavior v1_deployed ''p1'' 5 ''u1'' [] (Some ''v1'')) =
     Inr \<lparr>prediction_id = ''p1'',
          result_predictions = \<lparr>churn_probability = 0.6, engagement_level = ''medium'',
                                 next_activity = ''code_generation''\<rparr>,
          result_confidence_scores = \<lparr>conf_churn_probability = 0.6,
                                       conf_engagement_level = 0.85,
                                       conf_next_activity = 0.72\<rparr>,
          result_model_version = ''v1'',
          feature_importance = []\<rparr>"
  by (simp add: predict_user_behavior_def v1_deployed_value two_versions_def get_model_def
        version_or_latest_def prepare_features_empty predict_next_activity_empty
        classify_engagement_def store_prediction_def get_feature_importance_def Let_def)

text \<open>C3 as amended: an empty feature map is not rejected. \<^verbatim>\<open>_prepare_features\<close> turns it
  into the all-zero vector and the call goes on to the predictor. When the call fails, it
  fails with \<^verbatim>\<open>MLServiceException\<close> (\<open>User behavior prediction failed\<close>) and the
  table \<^verbatim>\<open>predictions\<close> is unchanged. When the resolved model is a fitted one that
  returns at least two scores for the all-zero vector, and no scaler is registered, the
  call returns a result whose churn probability is the second score.\<close>

theorem predict_empty_features_not_validated:
  "prepare_features [] ''user_behavior'' = Inr [0, 0, 0, 0] \<and>
   (\<forall>e s'. predict_user_behavior s new_id now uid [] mv = (Inl e, s') \<longrightarrow>
      (\<exists>x. e = MLServiceException ''User behavior prediction failed'' x) \<and>
      predictions s' = predictions s) \<and>
   (\<forall>f s1 raw.
      get_model s ''user_behavior'' mv = (Fitted f, s1) \<and>
      map_of (scalers s1) (''user_behavior'' @ ''_'' @ version_or_latest mv) = None \<and>
      f [0, 0, 0, 0] = Some raw \<and> 2 \<le> length raw \<longrightarrow>
      (\<exists>r. fst (predict_user_behavior s new_id now uid [] mv) = Inr r \<and>
           churn_probability (result_predictions r) = raw ! 1))"
proof (intro conjI)
  show "prepare_features [] ''user_behavior'' = Inr [0, 0, 0, 0]"
    by (rule prepare_features_empty)
  show "\<forall>e s'. predict_user_behavior s new_id now uid [] mv = (Inl e, s') \<longrightarrow>
      (\<exists>x. e = MLServiceException ''User behavior prediction failed'' x) \<and>
      predictions s' = predictions s"
  proof (intro allI impI)
    fix e s'
    assume "predict_user_behavior s new_id now uid [] mv = (Inl e, s')"
    from predict_user_behavior_failure[OF this]
    show "(\<exists>x. e = MLServiceException ''User behavior prediction failed'' x) \<and>
          predictions s' = predictions s"
      by (simp add: predictions_get_model)
  qed
  show "\<forall>f s1 raw.
      get_model s ''user_behavior'' mv = (Fitted f, s1) \<and>
      map_of (scalers s1) (''user_behavior'' @ ''_'' @ version_or_latest mv) = None \<and>
      f [0, 0, 0, 0] = Some raw \<and> 2 \<le> length raw \<longrightarrow>
      (\<exists>r. fst (predict_user_behavior s new_id now uid [] mv) = Inr r \<and>
           churn_probability (result_predictions r) = raw ! 1)"
    using predict_user_behavior_success by blast
qed

text \<open>Instances of the amended C3: on a fresh service the call with an empty feature map
  fails with \<^verbatim>\<open>MLServiceException\<close> (the default model is not fitted) and leaves
  \<^verbatim>\<open>predictions\<close> unchanged; with \<open>v1\<close> deployed it returns churn probability 0.6.\<close>

theorem predict_empty_features_not_validated_witness:
  "predict_user_behavior fresh ''p1'' 5 ''u1'' [] None =
     (Inl (MLServiceException ''User behavior prediction failed'' NotFittedError),
      fresh\<lparr>models := [(''user_behavior_latest'', DefaultClassifier)]\<rparr>) \<and>
   predictions (fresh\<lparr>models := [(''user_behavior_latest'', DefaultClassifier)]\<rparr>)
     = predictions fresh \<and>
   get_model v1_deployed ''user_behavior'' (Some ''v1'')
     = (Fitted (\<lambda>v. Some [0.4, 0.6]), v1_deployed) \<and>
   map_of (scalers v1_deployed) (''user_behavior'' @ ''_'' @ version_or_latest (Some ''v1'')) = None \<and>
   (\<exists>r. fst (predict_user_behavior v1_deployed ''p1'' 5 ''u1'' [] (Some ''v1'')) = Inr r \<and>
        churn_probability (result_predictions r) = 0.6)"
proof -
  have fail: "predict_user_behavior fresh ''p1'' 5 ''u1'' [] None =
     (Inl (MLServiceException ''User behavior prediction failed'' NotFittedError),
      fresh\<lparr>models := [(''user_behavior_latest'', DefaultClassifier)]\<rparr>)"
    by (simp add: predict_user_behavior_def fresh_def get_model_def version_or_latest_def
          create_default_model_def prepare_features_empty prediction_failed_def Let_def)
  have g: "get_model v1_deployed ''user_behavior'' (Some ''v1'')
             = (Fitted (\<lambda>v. Some [0.4, 0.6]), v1_deployed)"
    by (simp add: v1_deployed_value two_versions_def get_model_def version_or_latest_def)
  have sc: "map_of (scalers v1_deployed)
              (''user_behavior'' @ ''_'' @ version_or_latest (Some ''v1'')) = None"
    by (simp add: v1_deployed_value two_versions_def)
  note inst1 = predict_empty_features_not_validated [of fresh "''p1''" 5 "''u1''" None]
  note inst2 = predict_empty_features_not_validated [of v1_deployed "''p1''" 5 "''u1''" "Some ''v1''"]
  from inst1 fail have
    "predictions (fresh\<lparr>models := [(''user_behavior_latest'', DefaultClassifier)]\<rparr>)
       = predictions fresh"
    by blast
  moreover from inst2 g sc have
    "\<exists>r. fst (predict_user_behavior v1_deployed ''p1'' 5 ''u1'' [] (Some ''v1'')) = Inr r \<and>
         churn_probability (result_predictions r) = [0.4, 0.6] ! 1"
    by (elim conjE allE[of _ "\<lambda>v. Some [0.4, 0.6]"] allE[of _ v1_deployed] allE[of _ "[0.4, 0.6]"])
       simp
  ultimately show ?thesis using fail g sc by simp
qed

text \<open>C4 fails as stated: on a fresh service, with no deployed version of \<open>user_behavior\<close>
  and no version requested, \<^verbatim>\<open>_get_model\<close> does not fail; it returns a default
  classifier and stores it under \<open>user_behavior_latest\<close>.\<close>

theorem get_model_substitutes_default:
  "ml_models fresh = [] \<and> models fresh = [] \<and>
   get_model fresh ''user_behavior'' None =
     (DefaultClassifier, fresh\<lparr>models := [(''user_behavior_latest'', DefaultClassifier)]\<rparr>)"
  by (simp add: fresh_def get_model_def version_or_latest_def create_default_model_def)

text \<open>C4 as amended: \<^verbatim>\<open>_get_model\<close> always returns a model and never reads the table
  \<^verbatim>\<open>ml_models\<close>. When neither the requested key nor \<open><model type>_latest\<close> is in the
  registry \<^verbatim>\<open>self.models\<close>, it creates the default model of the model type, stores it
  under \<open><model type>_latest\<close> and returns it; in every case the model returned is the
  one registered under one of the two keys afterwards.\<close>

theorem get_model_never_fails:
  "(map_of (models s) (mt @ ''_'' @ version_or_latest v) = None \<and>
    map_of (models s) (mt @ ''_latest'') = None \<longrightarrow>
      get_model s mt v =
        (create_default_model mt,
         s\<lparr>models := models s @ [(mt @ ''_latest'', create_default_model mt)]\<rparr>)) \<and>
   (map_of (models (snd (get_model s mt v))) (mt @ ''_'' @ version_or_latest v)
      = Some (fst (get_model s mt v)) \<or>
    map_of (models (snd (get_model s mt v))) (mt @ ''_latest'') = Some (fst (get_model s mt v))) \<and>
   ml_models (snd (get_model s mt v)) = ml_models s"
proof (cases "map_of (models s) (mt @ ''_'' @ version_or_latest v)")
  case (Some m)
  then show ?thesis by (simp add: get_model_def Let_def)
next
  case None
  show ?thesis
  proof (cases "map_of (models s) (mt @ ''_latest'')")
    case (Some m)
    with None show ?thesis by (simp add: get_model_def Let_def)
  next
    case latest: None
    have g: "get_model s mt v =
               (create_default_model mt,
                s\<lparr>models := dict_set (models s) (mt @ ''_latest'') (create_default_model mt)\<rparr>)"
      using None latest by (simp add: get_model_def Let_def)
    have "map_of (models (snd (get_model s mt v))) (mt @ ''_latest'')
            = Some (fst (get_model s mt v))"
      unfolding g by (simp add: map_of_dict_set)
    moreover have "ml_models (snd (get_model s mt v)) = ml_models s"
      unfolding g by simp
    moreover have "get_model s mt v =
        (create_default_model mt,
         s\<lparr>models := models s @ [(mt @ ''_latest'', create_default_model mt)]\<rparr>)"
      unfolding g using latest by (simp add: dict_set_absent)
    ultimately show ?thesis by blast
  qed
qed

text \<open>An instance of the amended C4: with \<open>v1\<close> of \<open>user_behavior\<close> deployed, resolving
  version \<open>v3\<close> of \<open>resource_usage\<close> returns a default regressor.\<close>

theorem get_model_never_fails_witness:
  "get_model v1_deployed ''resource_usage'' (Some ''v3'') =
     (DefaultRegressor,
      v1_deployed\<lparr>models := models v1_deployed @ [(''resource_usage_latest'', DefaultRegressor)]\<rparr>) \<and>
   map m_status (ml_models v1_deployed) = [''deployed'', ''trained'']"
  using get_model_never_fails [of v1_deployed "''resource_usage''" "Some ''v3''"]
  by (simp add: v1_deployed_def deploy_model_def load_model_def two_versions_def
        version_or_latest_def create_default_model_def Let_def)

text \<open>C7 fails as stated: \<open>churn_prediction\<close> has no feature schema, and
  \<^verbatim>\<open>_prepare_features\<close> returns a vector for it.\<close>

theorem prepare_features_unknown_type_counterexample:
  "map_of feature_names ''churn_prediction'' = None \<and>
   prepare_features [(''x'', Num 1.5), (''y'', Num 2)] ''churn_prediction'' = Inr [1.5, 2]"
  by (simp add: feature_names_def prepare_features_def features_get_def)

text \<open>C7 as amended: for a model type with no registered feature schema,
  \<^verbatim>\<open>_prepare_features\<close> does not fail; it takes the first four keys of the feature map,
  in the order of the map, as the feature names, and for a map of numbers (a dict, so its
  keys are distinct) returns the values of these keys.\<close>

theorem prepare_features_unknown_type:
  "map_of feature_names mt = None \<Longrightarrow> distinct (map fst nfs) \<Longrightarrow>
   prepare_features (map (\<lambda>(k, x). (k, Num x)) nfs) mt = Inr (map snd (take 4 nfs))"
proof -
  assume none: "map_of feature_names mt = None" and d: "distinct (map fst nfs)"
  have keys: "take 4 (map fst (map (\<lambda>(k, x). (k, Num x)) nfs)) = map fst (take 4 nfs)"
    by (simp add: take_map o_def split_def)
  have "set (take 4 nfs) \<subseteq> set nfs" by (rule set_take_subset)
  from floats_own_keys[OF d this] none keys show ?thesis
    by (simp add: prepare_features_def)
qed

text \<open>An instance of the amended C7: of five features the first four are returned.\<close>

theorem prepare_features_unknown_type_witness:
  "map_of feature_names ''recommendation'' = None \<and>
   distinct (map fst [(''a'', 1::real), (''b'', 2), (''c'', 3), (''d'', 4), (''e'', 5)]) \<and>
   prepare_features [(''a'', Num 1), (''b'', Num 2), (''c'', Num 3), (''d'', Num 4), (''e'', Num 5)]
     ''recommendation'' = Inr [1, 2, 3, 4]"
proof -
  have n: "map_of feature_names ''recommendation'' = None" by (simp add: feature_names_def)
  have d: "distinct (map fst [(''a'', 1::real), (''b'', 2), (''c'', 3), (''d'', 4), (''e'', 5)])"
    by simp
  from prepare_features_unknown_type[OF n d] n d show ?thesis by simp
qed

text \<open>C8: for a model type with a registered feature schema, \<^verbatim>\<open>_prepare_features\<close>
  returns the vector ordered by the schema's feature names, with the value of each name
  that is in the feature map and 0.0 for each name that is not, whenever no schema feature
  is present with a value that is not a number. A missing feature never causes an error:
  an error means that some schema feature is present with a value that is not a number.\<close>

theorem prepare_features_defaults_missing:
  "map_of feature_names mt = Some names \<Longrightarrow>
   ((\<forall>n \<in> set names. map_of fs n \<noteq> Some NonNum) \<longrightarrow>
      prepare_features fs mt =
        Inr (map (\<lambda>n. case map_of fs n of Some (Num x) \<Rightarrow> x | _ \<Rightarrow> 0) names)) \<and>
   (\<forall>e. prepare_features fs mt = Inl e \<longrightarrow> (\<exists>n \<in> set names. map_of fs n = Some NonNum))"
  by (auto simp: prepare_features_def floats_numeric dest: floats_error)

text \<open>An instance of C8: for \<open>user_behavior\<close>, a map with \<open>project_count\<close>,
  \<open>activity_score\<close> and a key outside the schema gives the vector in schema order, with
  0.0 for the two missing features.\<close>

theorem prepare_features_defaults_missing_witness:
  "map_of feature_names ''user_behavior'' =
     Some [''activity_score'', ''project_count'', ''collaboration_score'', ''ai_usage_frequency''] \<and>
   prepare_features [(''project_count'', Num 5), (''note'', NonNum), (''activity_score'', Num 0.8)]
      ''user_behavior'' = Inr [0.8, 5, 0, 0]"
proof -
  have n: "map_of feature_names ''user_behavior'' =
     Some [''activity_score'', ''project_count'', ''collaboration_score'', ''ai_usage_frequency'']"
    by (simp add: feature_names_def)
  from prepare_features_defaults_missing
         [OF n, of "[(''project_count'', Num 5), (''note'', NonNum), (''activity_score'', Num 0.8)]"]
  show ?thesis using n by simp
qed

text \<open>C5 fails as stated: cancelling job \<open>job1\<close> after it has completed is not a no-op;
  its status changes from \<open>completed\<close> to \<open>cancelled\<close>.\<close>

theorem cancel_completed_job_overwrites_status:
  "map j_id (training_jobs job_completed) = [''job1''] \<and>
   map j_status (training_jobs job_completed) = [''completed''] \<and>
   map j_status (training_jobs (snd (cancel_job job_completed ''job1'' 99))) = [''cancelled'']"
  by (simp add: job_completed_value training_jobs_cancel_job)

text \<open>C5 as amended: \<^verbatim>\<open>cancel_job\<close> never raises and does not look at the state of the
  job: it returns \<open>cancelled\<close>, sets the status of every training job with the given id to
  \<open>cancelled\<close> and its completion time to the current time, whatever the status was
  (pending, running or terminal), leaves the start time untouched, and leaves every other
  job unchanged. So a pending job becomes \<open>cancelled\<close> with no start time set.\<close>

theorem cancel_job_any_state:
  "fst (cancel_job s job_id now)
     = \<lparr>cancelled_job_id = job_id, cancelled_status = ''cancelled''\<rparr> \<and>
   map (\<lambda>j. (j_id j, j_status j, j_started_at j, j_completed_at j))
       (training_jobs (snd (cancel_job s job_id now)))
     = map (\<lambda>j. if j_id j = job_id then (j_id j, ''cancelled'', j_started_at j, Some now)
                else (j_id j, j_status j, j_started_at j, j_completed_at j))
           (training_jobs s) \<and>
   filter (\<lambda>j. j_id j \<noteq> job_id) (training_jobs (snd (cancel_job s job_id now)))
     = filter (\<lambda>j. j_id j \<noteq> job_id) (training_jobs s)"
proof (intro conjI)
  show "fst (cancel_job s job_id now)
     = \<lparr>cancelled_job_id = job_id, cancelled_status = ''cancelled''\<rparr>"
    by (simp add: cancel_job_def Let_def)
  show "map (\<lambda>j. (j_id j, j_status j, j_started_at j, j_completed_at j))
       (training_jobs (snd (cancel_job s job_id now)))
     = map (\<lambda>j. if j_id j = job_id then (j_id j, ''cancelled'', j_started_at j, Some now)
                else (j_id j, j_status j, j_started_at j, j_completed_at j))
           (training_jobs s)"
    by (simp add: training_jobs_cancel_job o_def)
  show "filter (\<lambda>j. j_id j \<noteq> job_id) (training_jobs (snd (cancel_job s job_id now)))
     = filter (\<lambda>j. j_id j \<noteq> job_id) (training_jobs s)"
    unfolding training_jobs_cancel_job by (rule filter_other_jobs) simp
qed

text \<open>An instance of the amended C5: the pending job \<open>job1\<close>, which has no start time, is
  \<open>cancelled\<close> after \<^verbatim>\<open>cancel_job\<close> and still has no start time.\<close>

theorem cancel_job_any_state_witness:
  "map (\<lambda>j. (j_id j, j_status j, j_started_at j)) (training_jobs job_pending)
     = [(''job1'', ''pending'', None)] \<and>
   map (\<lambda>j. (j_id j, j_status j, j_started_at j, j_completed_at j))
       (training_jobs (snd (cancel_job job_pending ''job1'' 5)))
     = [(''job1'', ''cancelled'', None, Some 5)]"
  using cancel_job_any_state [of job_pending "''job1''" 5]
  by (simp add: job_pending_value fresh_def)

text \<open>C6: \<^verbatim>\<open>check_model_performance\<close> raises one alert for each metric of the map whose
  value is below its configured threshold, in the order of the map; an alert is \<open>high\<close>
  exactly when the value is below 90% of the threshold and \<open>medium\<close> exactly when it is
  below the threshold and at least 90% of it. Evaluating accuracy 0.65 (threshold 0.8)
  gives exactly one alert, of severity \<open>high\<close>.\<close>

theorem check_model_performance_alerts:
  "map (\<lambda>a. (alert_metric a, current_value a)) (alerts (check_model_performance mt ms now)) =
     filter (\<lambda>(m, v). \<exists>t. map_of performance_thresholds m = Some t \<and> v < t) ms \<and>
   (\<forall>a \<in> set (alerts (check_model_performance mt ms now)).
      map_of performance_thresholds (alert_metric a) = Some (alert_threshold a) \<and>
      (severity a = ''high'' \<longleftrightarrow> current_value a < alert_threshold a * 0.9) \<and>
      (severity a = ''medium'' \<longleftrightarrow>
         alert_threshold a * 0.9 \<le> current_value a \<and> current_value a < alert_threshold a)) \<and>
   map severity (alerts (check_model_performance ''user_behavior'' [(''accuracy'', 0.65)] now))
     = [''high'']"
proof (intro conjI)
  show "map (\<lambda>a. (alert_metric a, current_value a)) (alerts (check_model_performance mt ms now)) =
     filter (\<lambda>(m, v). \<exists>t. map_of performance_thresholds m = Some t \<and> v < t) ms"
    by (simp add: check_model_performance_def check_loop_eq o_def split_def)
  show "\<forall>a \<in> set (alerts (check_model_performance mt ms now)).
      map_of performance_thresholds (alert_metric a) = Some (alert_threshold a) \<and>
      (severity a = ''high'' \<longleftrightarrow> current_value a < alert_threshold a * 0.9) \<and>
      (severity a = ''medium'' \<longleftrightarrow>
         alert_threshold a * 0.9 \<le> current_value a \<and> current_value a < alert_threshold a)"
    by (auto simp: check_model_performance_def check_loop_eq)
  show "map severity (alerts (check_model_performance ''user_behavior'' [(''accuracy'', 0.65)] now))
     = [''high'']"
    by (simp add: check_model_performance_def performance_thresholds_def)
qed

text \<open>An instance of C6: accuracy 0.75 is a \<open>medium\<close> alert, precision 0.5 a \<open>high\<close>
  one, recall 0.9 and a metric without threshold raise none.\<close>

theorem check_model_performance_alerts_witness:
  "map (\<lambda>a. (alert_metric a, current_value a, severity a))
     (alerts (check_model_performance ''user_behavior''
        [(''accuracy'', 0.75), (''precision'', 0.5), (''recall'', 0.9), (''latency'', 0.1)] 0))
   = [(''accuracy'', 0.75, ''medium''), (''precision'', 0.5, ''high'')]"
  using check_model_performance_alerts
          [of "''user_behavior''"
              "[(''accuracy'', 0.75), (''precision'', 0.5), (''recall'', 0.9), (''latency'', 0.1)]" 0]
  by (simp add: check_model_performance_def performance_thresholds_def)

text \<open>C9: for a map of per-feature statistics (a dict, so its keys are distinct),
  \<^verbatim>\<open>detect_data_drift\<close> reports drift exactly when some feature has a drift score
  above the threshold 0.1, and the drift details hold exactly the features whose score is
  above it, each with its score and the threshold.\<close>

theorem detect_data_drift_report:
  assumes "distinct (map fst fs)"
  shows "(drift_detected (detect_data_drift mt fs now) \<longleftrightarrow>
            (\<exists>(f, stats) \<in> set fs. get_drift_score stats > 0.1)) \<and>
         drift_details (detect_data_drift mt fs now) =
           map (\<lambda>(f, stats). (f, \<lparr>drift_score = get_drift_score stats, drift_threshold = 0.1\<rparr>))
               (filter (\<lambda>(f, stats). get_drift_score stats > 0.1) fs)"
  using drift_loop_eq[OF assms, of "[]" False]
  by (simp add: detect_data_drift_def)

text \<open>An instance of C9: of three features with scores 0.2, none (read as 0.0) and 0.1,
  only the first is over the threshold.\<close>

theorem detect_data_drift_report_witness:
  "distinct (map fst [(''a'', [(''drift_score'', 0.2::real)]), (''b'', []), (''c'', [(''drift_score'', 0.1)])]) \<and>
   drift_detected (detect_data_drift ''user_behavior''
      [(''a'', [(''drift_score'', 0.2)]), (''b'', []), (''c'', [(''drift_score'', 0.1)])] 0) \<and>
   map fst (drift_details (detect_data_drift ''user_behavior''
      [(''a'', [(''drift_score'', 0.2)]), (''b'', []), (''c'', [(''drift_score'', 0.1)])] 0)) = [''a'']"
proof -
  have d: "distinct (map fst [(''a'', [(''drift_score'', 0.2::real)]), (''b'', []), (''c'', [(''drift_score'', 0.1)])])"
    by simp
  show ?thesis
    using d detect_data_drift_report[OF d, of "''user_behavior''" 0]
    by (simp add: get_drift_score_def)
qed

text \<open>C10: the engagement level is \<open>high\<close> exactly for a churn probability below 0.3,
  \<open>medium\<close> exactly from 0.3 up to but excluding 0.7, \<open>low\<close> exactly from 0.7 on; the
  result is always one of the three levels.\<close>

theorem classify_engagement_buckets:
  "(classify_engagement p = ''high'' \<longleftrightarrow> p < 0.3) \<and>
   (classify_engagement p = ''medium'' \<longleftrightarrow> 0.3 \<le> p \<and> p < 0.7) \<and>
   (classify_engagement p = ''low'' \<longleftrightarrow> 0.7 \<le> p) \<and>
   classify_engagement p \<in> {''high'', ''medium'', ''low''}"
  by (simp add: classify_engagement_def)

end
